theory Spec2Isabelle
  imports Main "HOL-Library.AList" "HOL-Library.Char_ord" "HOL-Library.List_Lexorder"
begin

section \<open>Python strings\<close>

text \<open>
  Captions are Python \<open>str\<close> values. Two library functions that the source calls on
  them read Unicode's tables: \<open>str.lower\<close> and the word class \<open>\w\<close> of the \<open>re\<close> module
  (behind \<open>\b\<close>). The tag extractor below takes both as parameters, over any type of
  characters, so that what is proved of it holds whatever the tables say.

  \<open>lower\<close> and \<open>is_word_char\<close> are the two functions on ASCII text, where a \<open>str\<close> is a
  \<open>string\<close>: \<open>str.lower\<close> folds \<open>A\<close>..\<open>Z\<close>, and \<open>\w\<close> is letters, digits and the
  underscore. They stand for the library wherever a caption of ASCII characters is
  evaluated.
\<close>

definition lower_char :: "char \<Rightarrow> char" where
  "lower_char c =
     (let n = (of_char c :: nat) in if 65 \<le> n \<and> n \<le> 90 then char_of (n + 32) else c)"

definition lower :: "string \<Rightarrow> string" where
  "lower s = map lower_char s"

definition is_word_char :: "char \<Rightarrow> bool" where
  "is_word_char c =
     (let n = (of_char c :: nat) in
        (48 \<le> n \<and> n \<le> 57) \<or> (65 \<le> n \<and> n \<le> 90) \<or> n = 95 \<or> (97 \<le> n \<and> n \<le> 122))"

text \<open>\<open>s.startswith(w)\<close>.\<close>

fun startswith :: "'a list \<Rightarrow> 'a list \<Rightarrow> bool" where
  "startswith s [] = True"
| "startswith [] (c # w) = False"
| "startswith (d # s) (c # w) = (d = c \<and> startswith s w)"

text \<open>\<open>w in s\<close> on strings: \<open>w\<close> occurs in \<open>s\<close> as a contiguous run of characters.\<close>

fun contains :: "string \<Rightarrow> string \<Rightarrow> bool" where
  "contains [] w = (w = [])"
| "contains (c # s) w = (startswith (c # s) w \<or> contains s w)"

text \<open>\<open>sep.join(parts)\<close>.\<close>

fun join :: "string \<Rightarrow> string list \<Rightarrow> string" where
  "join sep [] = []"
| "join sep [p] = p"
| "join sep (p # q # ps) = p @ sep @ join sep (q # ps)"

section \<open>The regular expressions of the tag table\<close>

text \<open>
  Every pattern of \<open>tag_patterns\<close> has the shape \<open>\b(?:w1|w2|...)\b\<close> with non-empty
  literal alternatives. The scanner is described by the character before the current
  position (\<open>None\<close> at the start of the text) and the text that is left. The word class
  \<open>\w\<close> is the parameter \<open>wordc\<close>.

  \<open>\b\<close> holds where exactly one of the two neighbouring characters is a word character;
  the start and the end of the text count as non-word.
\<close>

definition is_word :: "('c \<Rightarrow> bool) \<Rightarrow> 'c option \<Rightarrow> bool" where
  "is_word wordc p = (case p of None \<Rightarrow> False | Some c \<Rightarrow> wordc c)"

definition next_char :: "'c list \<Rightarrow> 'c option" where
  "next_char rest = (case rest of [] \<Rightarrow> None | c # _ \<Rightarrow> Some c)"

definition word_boundary :: "('c \<Rightarrow> bool) \<Rightarrow> 'c option \<Rightarrow> 'c list \<Rightarrow> bool" where
  "word_boundary wordc prev rest = (is_word wordc prev \<noteq> is_word wordc (next_char rest))"

text \<open>
  The alternation is tried from left to right; an alternative whose closing \<open>\b\<close> fails
  is given up for the next one. The closing \<open>\b\<close> sits between the last character of
  the alternative and the text after it.
\<close>

fun match_alt :: "('c \<Rightarrow> bool) \<Rightarrow> 'c list list \<Rightarrow> 'c list \<Rightarrow> 'c list option" where
  "match_alt wordc [] rest = None"
| "match_alt wordc (w # ws) rest =
     (if w \<noteq> [] \<and> startswith rest w
         \<and> word_boundary wordc (Some (last w)) (drop (length w) rest)
      then Some w else match_alt wordc ws rest)"

definition match_here ::
  "('c \<Rightarrow> bool) \<Rightarrow> 'c list list \<Rightarrow> 'c option \<Rightarrow> 'c list \<Rightarrow> 'c list option" where
  "match_here wordc alts prev rest =
     (if word_boundary wordc prev rest then match_alt wordc alts rest else None)"

lemma startswith_length: "startswith s w \<Longrightarrow> length w \<le> length s"
  by (induction s w rule: startswith.induct) auto

lemma match_alt_Some:
  "match_alt wordc alts rest = Some w \<Longrightarrow> w \<noteq> [] \<and> startswith rest w \<and> w \<in> set alts"
  by (induction alts) (auto split: if_splits)

lemma match_here_shorter:
  assumes "match_here wordc alts prev rest = Some w"
  shows "length (drop (length w) rest) < length rest"
proof -
  from assms have m: "match_alt wordc alts rest = Some w"
    by (simp add: match_here_def split: if_splits)
  then have "w \<noteq> []" and "startswith rest w"
    using match_alt_Some by blast+
  then have "0 < length w" and "length w \<le> length rest"
    using startswith_length by auto
  then have "length rest - length w < length rest" by arith
  then show ?thesis by simp
qed

text \<open>
  \<open>re.findall\<close>: scan from left to right; a match is recorded and the scan goes on
  behind it, otherwise the scan moves one character on.
\<close>

function findall ::
  "('c \<Rightarrow> bool) \<Rightarrow> 'c list list \<Rightarrow> 'c option \<Rightarrow> 'c list \<Rightarrow> 'c list list" where
  "findall wordc alts prev [] = []"
| "findall wordc alts prev (c # cs) =
     (case match_here wordc alts prev (c # cs) of
        Some w \<Rightarrow> w # findall wordc alts (Some (last w)) (drop (length w) (c # cs))
      | None \<Rightarrow> findall wordc alts (Some c) cs)"
  by pat_completeness auto
termination
proof (relation "measure (\<lambda>(wordc, alts, prev, rest). length rest)", goal_cases)
  case 1
  show ?case by simp
next
  case (2 wordc alts prev c cs)
  show ?case by simp
next
  case (3 wordc alts prev c cs w)
  then show ?case using match_here_shorter [of wordc alts prev "c # cs" w] by simp
qed

section \<open>Python values and errors\<close>

text \<open>
  An exception is a value of \<open>py_error\<close>; a function that may raise returns
  \<open>py_error + 'a\<close>. \<open>UpstreamError msg\<close> stands for whatever the image library or the
  captioning model raises, with \<open>msg\<close> its \<open>str(e)\<close>. \<open>TypeError\<close> marks a value of
  another shape than the one the source indexes; the records built here never have it.
\<close>

datatype py_error =
  KeyError string | IndexError | ZeroDivisionError | TypeError | UpstreamError string

fun str_of_error :: "py_error \<Rightarrow> string" where
  "str_of_error (KeyError k) = [CHR 0x27] @ k @ [CHR 0x27]"
| "str_of_error IndexError = ''list index out of range''"
| "str_of_error ZeroDivisionError = ''division by zero''"
| "str_of_error TypeError = ''object is not subscriptable''"
| "str_of_error (UpstreamError msg) = msg"

text \<open>
  A dict is an association list in insertion order. \<open>d[k]\<close> raises \<open>KeyError\<close> on a
  missing key, \<open>d[k] = v\<close> is \<open>AList.update\<close>, and \<open>d.get(k, dflt)\<close> never raises.
\<close>

definition getitem :: "(string \<times> 'v) list \<Rightarrow> string \<Rightarrow> py_error + 'v" where
  "getitem d k = (case map_of d k of None \<Rightarrow> Inl (KeyError k) | Some v \<Rightarrow> Inr v)"

definition dict_get :: "(string \<times> 'v) list \<Rightarrow> string \<Rightarrow> 'v \<Rightarrow> 'v" where
  "dict_get d k dflt = (case map_of d k of None \<Rightarrow> dflt | Some v \<Rightarrow> v)"

text \<open>
  The values of the result record. A float literal with two decimals is kept as its
  number of hundredths (\<open>0.85\<close> is \<open>PFloat 85\<close>). \<open>PRound2 w h\<close> is the float
  \<open>round(w / h, 2)\<close>, kept as the division it comes from: the arithmetic of binary floats
  is not modelled.
\<close>

datatype pyval =
    PStr string
  | PInt int
  | PFloat int
  | PRound2 int int
  | PList "pyval list"
  | PDict "(string \<times> pyval) list"

text \<open>
  \<open>list(set(xs))\<close> lists the distinct elements of \<open>xs\<close> in the iteration order of a
  Python set, which the language leaves open and which changes with the hash seed of the
  process. The order is a parameter \<open>list_set\<close> of every function that builds such a
  list; \<open>set_listing\<close> says what any run of Python guarantees about it.
\<close>

definition set_listing :: "('a list \<Rightarrow> 'a list) \<Rightarrow> bool" where
  "set_listing list_set \<longleftrightarrow> (\<forall>xs. distinct (list_set xs) \<and> set (list_set xs) = set xs)"

text \<open>
  Two listings: the distinct elements in the order of their first occurrence, and the
  same elements the other way round.
\<close>

definition reversed_listing :: "'a list \<Rightarrow> 'a list" where
  "reversed_listing xs = rev (remdups xs)"

section \<open>Tag extraction\<close>

definition people_words :: "string list" where
  "people_words = [''person'', ''people'', ''man'', ''woman'', ''child'', ''boy'', ''girl'',
     ''baby'', ''adult'']"

definition actions_words :: "string list" where
  "actions_words = [''running'', ''walking'', ''sitting'', ''standing'', ''jumping'',
     ''dancing'', ''playing'', ''working'', ''exercising'', ''cooking'', ''reading'',
     ''writing'', ''driving'', ''riding'', ''swimming'', ''flying'', ''climbing'',
     ''lifting'', ''pushing'', ''pulling'', ''throwing'', ''catching'', ''kicking'',
     ''hitting'']"

definition sports_words :: "string list" where
  "sports_words = [''football'', ''basketball'', ''tennis'', ''soccer'', ''baseball'',
     ''golf'', ''hockey'', ''volleyball'', ''boxing'', ''wrestling'', ''cycling'', ''skiing'',
     ''surfing'', ''skateboarding'', ''yoga'', ''gym'', ''fitness'', ''workout'',
     ''exercise'', ''bench press'', ''squats'', ''deadlift'']"

definition locations_words :: "string list" where
  "locations_words = [''park'', ''beach'', ''street'', ''road'', ''building'', ''house'',
     ''office'', ''school'', ''hospital'', ''restaurant'', ''store'', ''mall'', ''gym'',
     ''stadium'', ''field'', ''court'', ''track'', ''pool'', ''lake'', ''river'',
     ''mountain'', ''forest'', ''desert'', ''city'', ''town'', ''village'']"

definition objects_words :: "string list" where
  "objects_words = [''car'', ''truck'', ''bike'', ''bicycle'', ''motorcycle'', ''bus'',
     ''train'', ''plane'', ''boat'', ''chair'', ''table'', ''bed'', ''computer'', ''phone'',
     ''camera'', ''book'', ''ball'', ''bottle'', ''cup'', ''plate'', ''food'', ''tree'',
     ''flower'', ''animal'', ''dog'', ''cat'', ''bird'']"

definition weather_words :: "string list" where
  "weather_words = [''sunny'', ''cloudy'', ''rainy'', ''snowy'', ''foggy'', ''windy'',
     ''storm'', ''clear'', ''bright'', ''dark'', ''day'', ''night'', ''morning'',
     ''afternoon'', ''evening'', ''sunset'', ''sunrise'']"

definition colors_words :: "string list" where
  "colors_words = [''red'', ''blue'', ''green'', ''yellow'', ''orange'', ''purple'', ''pink'',
     ''black'', ''white'', ''gray'', ''grey'', ''brown'', ''silver'', ''gold'']"

definition emotions_words :: "string list" where
  "emotions_words = [''happy'', ''sad'', ''angry'', ''excited'', ''surprised'', ''calm'',
     ''peaceful'', ''energetic'', ''tired'', ''focused'', ''concentrated'', ''relaxed'']"

text \<open>The dict \<open>tag_patterns\<close>, in insertion order; a pattern is its list of alternatives.\<close>

definition tag_patterns :: "(string \<times> string list) list" where
  "tag_patterns =
     [(''people'', people_words), (''actions'', actions_words), (''sports'', sports_words),
      (''locations'', locations_words), (''objects'', objects_words),
      (''weather'', weather_words), (''colors'', colors_words),
      (''emotions'', emotions_words)]"

text \<open>
  The body of \<open>extract_tags_from_caption\<close>. The loop over \<open>tag_patterns.items()\<close> extends
  \<open>tags\<close> by the matches of each pattern. \<open>str_lower\<close> is \<open>str.lower\<close>, \<open>wordc\<close> is the
  class \<open>\w\<close>, and \<open>lit\<close> reads a character of a pattern as a character of the text.
\<close>

definition extract_tags_from_caption_by ::
  "('c list \<Rightarrow> 'c list) \<Rightarrow> ('c \<Rightarrow> bool) \<Rightarrow> (char \<Rightarrow> 'c) \<Rightarrow> ('c list list \<Rightarrow> 'c list list)
     \<Rightarrow> 'c list \<Rightarrow> 'c list list" where
  "extract_tags_from_caption_by str_lower wordc lit list_set caption =
     (let caption_lower = str_lower caption;
          tags = concat (map (\<lambda>(category, pattern).
                     findall wordc (map (map lit) pattern) None caption_lower)
                   tag_patterns)
      in list_set tags)"

text \<open>The function on ASCII text.\<close>

definition extract_tags_from_caption ::
  "(string list \<Rightarrow> string list) \<Rightarrow> string \<Rightarrow> string list" where
  "extract_tags_from_caption list_set caption =
     extract_tags_from_caption_by lower is_word_char id list_set caption"

section \<open>Scene context\<close>

text \<open>\<open>any(word in caption_lower for word in words)\<close>.\<close>

definition any_in :: "string list \<Rightarrow> string \<Rightarrow> bool" where
  "any_in words caption_lower = list_ex (\<lambda>word. contains caption_lower word) words"

definition analyze_scene_context :: "string \<Rightarrow> (string \<times> string) list" where
  "analyze_scene_context caption =
     (let caption_lower = lower caption;
          context = [(''setting'', ''unknown''), (''time_of_day'', ''unknown''),
                     (''activity_level'', ''unknown''), (''social_context'', ''unknown''),
                     (''mood'', ''neutral'')];
          context =
            (if any_in [''indoor'', ''inside'', ''room'', ''office'', ''house'', ''building'']
                  caption_lower
             then AList.update ''setting'' ''indoor'' context
             else if any_in [''outdoor'', ''outside'', ''park'', ''street'', ''beach'',
                  ''field'', ''forest''] caption_lower
             then AList.update ''setting'' ''outdoor'' context
             else context);
          context =
            (if any_in [''night'', ''evening'', ''dark''] caption_lower
             then AList.update ''time_of_day'' ''night'' context
             else if any_in [''morning'', ''sunrise''] caption_lower
             then AList.update ''time_of_day'' ''morning'' context
             else if any_in [''afternoon'', ''day'', ''sunny'', ''bright''] caption_lower
             then AList.update ''time_of_day'' ''day'' context
             else if any_in [''sunset'', ''dusk''] caption_lower
             then AList.update ''time_of_day'' ''evening'' context
             else context);
          context =
            (if any_in [''running'', ''jumping'', ''dancing'', ''playing'', ''exercising'',
                  ''working out''] caption_lower
             then AList.update ''activity_level'' ''high'' context
             else if any_in [''walking'', ''standing'', ''working''] caption_lower
             then AList.update ''activity_level'' ''medium'' context
             else if any_in [''sitting'', ''lying'', ''sleeping'', ''resting''] caption_lower
             then AList.update ''activity_level'' ''low'' context
             else context);
          context =
            (if any_in [''group'', ''people'', ''crowd'', ''team'', ''family''] caption_lower
             then AList.update ''social_context'' ''group'' context
             else if any_in [''person'', ''man'', ''woman'', ''individual''] caption_lower
             then AList.update ''social_context'' ''individual'' context
             else context);
          context =
            (if any_in [''smiling'', ''happy'', ''celebrating'', ''laughing''] caption_lower
             then AList.update ''mood'' ''positive'' context
             else if any_in [''focused'', ''concentrated'', ''serious'', ''determined'']
                  caption_lower
             then AList.update ''mood'' ''focused'' context
             else if any_in [''relaxed'', ''calm'', ''peaceful''] caption_lower
             then AList.update ''mood'' ''calm'' context
             else context)
      in context)"

section \<open>Description synthesis\<close>

text \<open>
  The four reads \<open>context[...]\<close> raise \<open>KeyError\<close> on a missing key; the first missing
  key, in the order of the source, is the one reported. The \<open>mood\<close> entry is never read.
\<close>

definition create_ai_description ::
  "string \<Rightarrow> (string \<times> string) list \<Rightarrow> string list \<Rightarrow> py_error + string" where
  "create_ai_description caption context tags =
     (case getitem context ''setting'' of Inl e \<Rightarrow> Inl e | Inr setting \<Rightarrow>
     (case getitem context ''time_of_day'' of Inl e \<Rightarrow> Inl e | Inr time_of_day \<Rightarrow>
     (case getitem context ''activity_level'' of Inl e \<Rightarrow> Inl e | Inr activity_level \<Rightarrow>
     (case getitem context ''social_context'' of Inl e \<Rightarrow> Inl e | Inr social_context \<Rightarrow>
        let description_parts = [caption];
            description_parts =
              (if setting \<noteq> ''unknown''
               then description_parts @ [''This appears to be an '' @ setting @ '' scene.'']
               else description_parts);
            description_parts =
              (if time_of_day \<noteq> ''unknown''
               then description_parts @ [''The time appears to be '' @ time_of_day @ ''.'']
               else description_parts);
            description_parts =
              (if activity_level \<noteq> ''unknown''
               then description_parts @
                      [''The activity level in the image is '' @ activity_level @ ''.'']
               else description_parts);
            description_parts =
              (if social_context \<noteq> ''unknown''
               then (if social_context = ''group''
                     then description_parts @
                            [''This involves multiple people or a group setting.'']
                     else description_parts @ [''This focuses on an individual person.''])
               else description_parts);
            key_tags =
              filter (\<lambda>tag. tag \<notin> set [''person'', ''people'', ''man'', ''woman'']) tags;
            description_parts =
              (if tags \<noteq> [] \<and> key_tags \<noteq> []
               then description_parts @
                      [''Key elements include: '' @ join '', '' (take 5 key_tags) @ ''.'']
               else description_parts)
        in Inr (join '' '' description_parts)))))"

section \<open>Related topics\<close>

definition generate_related_topics ::
  "(string list \<Rightarrow> string list) \<Rightarrow> string list \<Rightarrow> (string \<times> string) list
     \<Rightarrow> py_error + string list" where
  "generate_related_topics list_set tags context =
     (let topics = [];
          topics =
            (if list_ex (\<lambda>tag. tag \<in> set tags) [''running'', ''exercise'', ''gym'', ''fitness'']
             then topics @ [''fitness'', ''health'', ''exercise routines'', ''nutrition'',
                    ''wellness'']
             else topics);
          topics =
            (if list_ex (\<lambda>tag. tag \<in> set tags) [''beach'', ''outdoor'', ''park'']
             then topics @ [''outdoor activities'', ''nature'', ''travel'', ''recreation'']
             else topics);
          topics =
            (if list_ex (\<lambda>tag. tag \<in> set tags)
                  [''sports'', ''basketball'', ''football'', ''tennis'']
             then topics @ [''sports'', ''athletics'', ''competition'', ''team activities'']
             else topics)
      in (case getitem context ''setting'' of Inl e \<Rightarrow> Inl e | Inr setting \<Rightarrow>
         let topics =
               (if setting = ''outdoor''
                then topics @ [''outdoor lifestyle'', ''fresh air benefits'']
                else topics)
         in (case getitem context ''activity_level'' of Inl e \<Rightarrow> Inl e
            | Inr activity_level \<Rightarrow>
              let topics =
                    (if activity_level = ''high''
                     then topics @ [''active lifestyle'', ''energy'', ''motivation'']
                     else topics)
              in Inr (take 5 (list_set topics)))))"

section \<open>The orchestrator\<close>

text \<open>
  What the collaborators of \<open>generate_ai_optimized_description\<close> hand over when they do
  not raise: the size and format of the opened image and the two decoded captions. The
  call as a whole is \<open>Inl msg\<close> when one of them raises an exception with \<open>str(e) = msg\<close>.
\<close>

record blip_output =
  width :: int
  height :: int
  format :: "string option"
  standard_caption :: string
  detailed_caption :: string

text \<open>\<open>os.path.basename\<close> on a POSIX path: what follows the last slash.\<close>

definition basename :: "string \<Rightarrow> string" where
  "basename p = rev (takeWhile (\<lambda>c. c \<noteq> CHR ''/'') (rev p))"

text \<open>\<open>round(width / height, 2)\<close>: the division raises on a zero height.\<close>

definition aspect_ratio :: "int \<Rightarrow> int \<Rightarrow> py_error + pyval" where
  "aspect_ratio w h = (if h = 0 then Inl ZeroDivisionError else Inr (PRound2 w h))"

text \<open>\<open>image.format or "JPEG"\<close>.\<close>

definition format_or_jpeg :: "string option \<Rightarrow> string" where
  "format_or_jpeg f = (case f of None \<Rightarrow> ''JPEG'' | Some s \<Rightarrow> if s = [] then ''JPEG'' else s)"

definition context_value :: "(string \<times> string) list \<Rightarrow> pyval" where
  "context_value context = PDict (map (\<lambda>(k, v). (k, PStr v)) context)"

definition strings_value :: "string list \<Rightarrow> pyval" where
  "strings_value xs = PList (map PStr xs)"

text \<open>
  The body of the \<open>try\<close> statement. \<open>device\<close> is \<open>self.device\<close> and \<open>now\<close> is
  \<open>datetime.now().isoformat()\<close>. The entries of the result dict are evaluated in the
  order they are written, so the division comes before the related topics.
\<close>

definition try_block ::
  "(string list \<Rightarrow> string list) \<Rightarrow> string \<Rightarrow> string \<Rightarrow> string \<Rightarrow> string + blip_output
     \<Rightarrow> py_error + pyval" where
  "try_block list_set device now image_path upstream =
     (case upstream of Inl msg \<Rightarrow> Inl (UpstreamError msg) | Inr out \<Rightarrow>
      let captions =
            [PDict [(''type'', PStr ''standard''), (''text'', PStr (standard_caption out)),
                    (''confidence'', PFloat 85)],
             PDict [(''type'', PStr ''detailed''), (''text'', PStr (detailed_caption out)),
                    (''confidence'', PFloat 80)]];
          primary_caption = standard_caption out;
          tags = extract_tags_from_caption list_set primary_caption;
          scene_context = analyze_scene_context primary_caption
      in (case create_ai_description primary_caption scene_context tags of
           Inl e \<Rightarrow> Inl e
         | Inr ai_description \<Rightarrow>
         (case aspect_ratio (width out) (height out) of
           Inl e \<Rightarrow> Inl e
         | Inr ratio \<Rightarrow>
         (case generate_related_topics list_set tags scene_context of
           Inl e \<Rightarrow> Inl e
         | Inr related_topics \<Rightarrow>
      Inr (PDict
        [(''filename'', PStr (basename image_path)),
         (''timestamp'', PStr now),
         (''image_properties'', PDict
            [(''width'', PInt (width out)), (''height'', PInt (height out)),
             (''aspect_ratio'', ratio), (''format'', PStr (format_or_jpeg (format out)))]),
         (''ai_description'', PStr ai_description),
         (''captions'', PList captions),
         (''tags'', strings_value (sort tags)),
         (''scene_context'', context_value scene_context),
         (''related_topics'', strings_value related_topics),
         (''metadata'', PDict
            [(''model_used'', PStr ''BLIP-base''), (''processing_device'', PStr device),
             (''analysis_version'', PStr ''1.0'')])])))))"

text \<open>The \<open>except Exception\<close> branch builds the error record; its \<open>print\<close> is left out.\<close>

definition generate_ai_optimized_description ::
  "(string list \<Rightarrow> string list) \<Rightarrow> string \<Rightarrow> string \<Rightarrow> string \<Rightarrow> string + blip_output
     \<Rightarrow> pyval" where
  "generate_ai_optimized_description list_set device now image_path upstream =
     (case try_block list_set device now image_path upstream of
        Inr result \<Rightarrow> result
      | Inl e \<Rightarrow>
          PDict
            [(''filename'', PStr (basename image_path)),
             (''timestamp'', PStr now),
             (''error'', PStr (str_of_error e)),
             (''ai_description'',
                PStr ''Unable to process this image. Please try again or use a different image.''),
             (''captions'', PList []),
             (''tags'', PList []),
             (''scene_context'', PDict []),
             (''related_topics'', PList [PStr ''image analysis'', PStr ''technical support''])])"

text \<open>
  \<open>result.get("captions", [{}])[0].get("text", "Unable to generate caption")\<close>:
  indexing an empty list raises \<open>IndexError\<close>.
\<close>

definition first_caption_text :: "pyval \<Rightarrow> py_error + pyval" where
  "first_caption_text result =
     (case result of
        PDict r \<Rightarrow>
          (case dict_get r ''captions'' (PList [PDict []]) of
             PList [] \<Rightarrow> Inl IndexError
           | PList (PDict c # _) \<Rightarrow> Inr (dict_get c ''text'' (PStr ''Unable to generate caption''))
           | _ \<Rightarrow> Inl TypeError)
      | _ \<Rightarrow> Inl TypeError)"

definition image_to_caption ::
  "(string list \<Rightarrow> string list) \<Rightarrow> string \<Rightarrow> string \<Rightarrow> string \<Rightarrow> string + blip_output
     \<Rightarrow> py_error + pyval" where
  "image_to_caption list_set device now image_path upstream =
     first_caption_text
       (generate_ai_optimized_description list_set device now image_path upstream)"

definition image_to_ai_description ::
  "(string list \<Rightarrow> string list) \<Rightarrow> string \<Rightarrow> string \<Rightarrow> string \<Rightarrow> string + blip_output
     \<Rightarrow> pyval" where
  "image_to_ai_description list_set device now image_path upstream =
     generate_ai_optimized_description list_set device now image_path upstream"

section \<open>Notions used to state the properties\<close>

text \<open>
  A keyword of the list occurs in the lower-cased caption as a contiguous run of
  characters, at any position.
\<close>

definition keyword_occurs :: "string list \<Rightarrow> string \<Rightarrow> bool" where
  "keyword_occurs words caption \<longleftrightarrow>
     (\<exists>word \<in> set words. \<exists>before after. lower caption = before @ word @ after)"

text \<open>
  The words of a caption, as the specification speaks of them: the maximal runs of word
  characters of the lower-cased caption. This notion is not part of the source.
\<close>

fun word_runs :: "string \<Rightarrow> string \<Rightarrow> string list" where
  "word_runs cur [] = (if cur = [] then [] else [cur])"
| "word_runs cur (c # cs) =
     (if is_word_char c then word_runs (cur @ [c]) cs
      else if cur = [] then word_runs [] cs else cur # word_runs [] cs)"

definition spec_caption_words :: "string \<Rightarrow> string list" where
  "spec_caption_words caption = word_runs [] (lower caption)"

text \<open>The last character of a text, \<open>None\<close> for the empty text.\<close>

definition last_char :: "'c list \<Rightarrow> 'c option" where
  "last_char s = (if s = [] then None else Some (last s))"

text \<open>
  \<open>w\<close> is a word-boundary match in a text: it is not empty and stands in the text with a
  word boundary at each of its ends.
\<close>

definition word_match :: "('c \<Rightarrow> bool) \<Rightarrow> 'c list \<Rightarrow> 'c list \<Rightarrow> bool" where
  "word_match wordc text w \<longleftrightarrow>
     w \<noteq> [] \<and>
     (\<exists>before after. text = before @ w @ after
        \<and> word_boundary wordc (last_char before) (w @ after)
        \<and> word_boundary wordc (last_char (before @ w)) after)"

text \<open>
  A term is a word-boundary, case-insensitive match in a text: a word-boundary match in
  the text lowers to the term.
\<close>

definition insensitive_word_match ::
  "('c list \<Rightarrow> 'c list) \<Rightarrow> ('c \<Rightarrow> bool) \<Rightarrow> 'c list \<Rightarrow> 'c list \<Rightarrow> bool" where
  "insensitive_word_match str_lower wordc text tag \<longleftrightarrow>
     (\<exists>m. str_lower m = tag \<and> word_match wordc text m)"

text \<open>All ways to cut a list in two, and in three.\<close>

fun splits :: "'a list \<Rightarrow> ('a list \<times> 'a list) list" where
  "splits [] = [([], [])]"
| "splits (x # xs) = ([], x # xs) # map (\<lambda>(p, s). (x # p, s)) (splits xs)"

definition pieces :: "'a list \<Rightarrow> ('a list \<times> 'a list \<times> 'a list) list" where
  "pieces text =
     concat (map (\<lambda>(before, rest). map (\<lambda>(m, after). (before, m, after)) (splits rest))
       (splits text))"

text \<open>
  The caption of one example is not ASCII: U+0130 (capital I with dot above) followed by
  \<open>man\<close>, as code points \<open>[304, 109, 97, 110]\<close>. \<open>example_lower\<close> and \<open>example_word\<close> are
  \<open>str.lower\<close> and \<open>\w\<close> on the code points of ASCII, on U+0130, which is a letter and
  lowers to \<open>i\<close> followed by U+0307, and on U+0307 (combining dot above), which is no
  word character and lowers to itself. They are used on that caption only.
\<close>

definition example_lower :: "nat list \<Rightarrow> nat list" where
  "example_lower s =
     concat (map (\<lambda>n. if 65 \<le> n \<and> n \<le> 90 then [n + 32]
                       else if n = 304 then [105, 775] else [n]) s)"

definition example_word :: "nat \<Rightarrow> bool" where
  "example_word n \<longleftrightarrow>
     (48 \<le> n \<and> n \<le> 57) \<or> (65 \<le> n \<and> n \<le> 90) \<or> n = 95 \<or> (97 \<le> n \<and> n \<le> 122) \<or> n = 304"

text \<open>The entry of a record under a key; \<open>None\<close> when the key is absent.\<close>

definition record_field :: "pyval \<Rightarrow> string \<Rightarrow> pyval option" where
  "record_field r k = (case r of PDict d \<Rightarrow> map_of d k | _ \<Rightarrow> None)"

section \<open>Set listings\<close>

lemma set_listing_remdups: "set_listing remdups"
  by (simp add: set_listing_def)

lemma set_listing_reversed: "set_listing reversed_listing"
  by (simp add: set_listing_def reversed_listing_def)

lemma set_listing_distinct: "set_listing list_set \<Longrightarrow> distinct (list_set xs)"
  by (simp add: set_listing_def)

lemma set_listing_set: "set_listing list_set \<Longrightarrow> set (list_set xs) = set xs"
  by (simp add: set_listing_def)

section \<open>The error record\<close>

text \<open>
  Claim C4. When the collaborators raise, with message \<open>msg\<close>, the orchestrator returns
  the error record: the base name of the path, the timestamp, the message, the fixed
  apology, empty captions and tags, an empty scene context and the two fallback topics.
  Nothing in it comes from tag extraction, context inference, synthesis or the topic
  recommender. For the path \<open>x.jpg\<close> the file name is \<open>x.jpg\<close>.
\<close>

theorem error_record_on_upstream_failure:
  "generate_ai_optimized_description list_set device now image_path (Inl msg) =
     PDict
       [(''filename'', PStr (basename image_path)),
        (''timestamp'', PStr now),
        (''error'', PStr msg),
        (''ai_description'',
           PStr ''Unable to process this image. Please try again or use a different image.''),
        (''captions'', PList []),
        (''tags'', PList []),
        (''scene_context'', PDict []),
        (''related_topics'', PList [PStr ''image analysis'', PStr ''technical support''])]
   \<and> basename ''x.jpg'' = ''x.jpg''"
  by (simp add: generate_ai_optimized_description_def try_block_def basename_def)

section \<open>Related topics\<close>

text \<open>
  Claim C10. The related topics depend on the context only through its \<open>setting\<close> and
  \<open>activity_level\<close> entries: two contexts that agree on these two give the same result
  for the same tags, whatever their other entries are.
\<close>

theorem related_topics_depend_on_setting_and_activity:
  assumes "map_of context1 ''setting'' = map_of context2 ''setting''"
    and "map_of context1 ''activity_level'' = map_of context2 ''activity_level''"
  shows "generate_related_topics list_set tags context1 =
         generate_related_topics list_set tags context2"
  unfolding generate_related_topics_def getitem_def assms by (rule refl)

theorem related_topics_depend_on_setting_and_activity_witness:
  "generate_related_topics remdups [''park'']
     [(''setting'', ''outdoor''), (''time_of_day'', ''night''), (''activity_level'', ''high''),
      (''social_context'', ''group''), (''mood'', ''calm'')] =
   generate_related_topics remdups [''park'']
     [(''setting'', ''outdoor''), (''time_of_day'', ''unknown''), (''activity_level'', ''high''),
      (''social_context'', ''individual''), (''mood'', ''neutral'')]"
  by (rule related_topics_depend_on_setting_and_activity) simp_all

text \<open>
  Claim C6. For every tag list and every context that has the two entries the function
  reads, \<open>generate_related_topics\<close> returns a list of at most five topics without
  duplicates, whatever order the set is listed in.
\<close>

theorem related_topics_at_most_five_distinct:
  assumes "set_listing list_set"
    and "map_of context ''setting'' = Some setting"
    and "map_of context ''activity_level'' = Some activity_level"
  shows "\<exists>topics. generate_related_topics list_set tags context = Inr topics
           \<and> length topics \<le> 5 \<and> distinct topics"
proof -
  have "\<exists>pool. generate_related_topics list_set tags context = Inr (take 5 (list_set pool))"
    unfolding generate_related_topics_def getitem_def
    by (simp only: assms option.case sum.case Let_def) (rule exI, rule refl)
  then obtain pool where
    r: "generate_related_topics list_set tags context = Inr (take 5 (list_set pool))" ..
  from assms(1) have "distinct (list_set pool)"
    by (rule set_listing_distinct)
  then have "distinct (take 5 (list_set pool))"
    by (rule distinct_take)
  with r show ?thesis by simp
qed

theorem related_topics_at_most_five_distinct_witness:
  "set_listing remdups \<and>
   (\<exists>topics. generate_related_topics remdups [''gym'', ''park'', ''tennis'']
       [(''setting'', ''outdoor''), (''time_of_day'', ''unknown''), (''activity_level'', ''high''),
        (''social_context'', ''unknown''), (''mood'', ''neutral'')] = Inr topics
     \<and> length topics \<le> 5 \<and> distinct topics)"
proof
  show l: "set_listing remdups" by (rule set_listing_remdups)
  show "\<exists>topics. generate_related_topics remdups [''gym'', ''park'', ''tennis'']
       [(''setting'', ''outdoor''), (''time_of_day'', ''unknown''), (''activity_level'', ''high''),
        (''social_context'', ''unknown''), (''mood'', ''neutral'')] = Inr topics
     \<and> length topics \<le> 5 \<and> distinct topics"
    by (rule related_topics_at_most_five_distinct
          [OF l, where setting = "''outdoor''" and activity_level = "''high''"]) simp_all
qed

section \<open>Substrings\<close>

lemma startswith_iff: "startswith s w \<longleftrightarrow> (\<exists>after. s = w @ after)"
  by (induction s w rule: startswith.induct) auto

lemma contains_iff: "contains s w \<longleftrightarrow> (\<exists>before after. s = before @ w @ after)"
proof (induction s)
  case Nil
  then show ?case by simp
next
  case (Cons c s)
  show ?case
  proof
    assume "contains (c # s) w"
    then consider "startswith (c # s) w" | "contains s w" by auto
    then show "\<exists>before after. c # s = before @ w @ after"
    proof cases
      case 1
      then obtain after where "c # s = w @ after" using startswith_iff by blast
      then have "c # s = [] @ w @ after" by simp
      then show ?thesis by blast
    next
      case 2
      then obtain before after where "s = before @ w @ after" using Cons.IH by blast
      then have "c # s = (c # before) @ w @ after" by simp
      then show ?thesis by blast
    qed
  next
    assume "\<exists>before after. c # s = before @ w @ after"
    then obtain before after where e: "c # s = before @ w @ after" by blast
    show "contains (c # s) w"
    proof (cases before)
      case Nil
      with e have "startswith (c # s) w" using startswith_iff by auto
      then show ?thesis by simp
    next
      case (Cons b before')
      with e have "s = before' @ w @ after" by simp
      then have "contains s w" using Cons.IH by blast
      then show ?thesis by simp
    qed
  qed
qed

lemma any_in_iff: "any_in words (lower caption) = keyword_occurs words caption"
  by (simp add: any_in_def keyword_occurs_def list_ex_iff contains_iff)

lemma keyword_occurs_code [code]:
  "keyword_occurs words caption = any_in words (lower caption)"
  by (simp add: any_in_iff)

section \<open>Scene context\<close>

lemma if_entry_merge:
  "(if b then (k, v) # xs else (k, v') # ys) = (k, if b then v else v') # (if b then xs else ys)"
  by simp

text \<open>The context as one list: every entry is decided by its own chain of tests.\<close>

lemma analyze_scene_context_eq:
  "analyze_scene_context caption =
     [(''setting'',
         if any_in [''indoor'', ''inside'', ''room'', ''office'', ''house'', ''building'']
              (lower caption) then ''indoor''
         else if any_in [''outdoor'', ''outside'', ''park'', ''street'', ''beach'', ''field'',
              ''forest''] (lower caption) then ''outdoor''
         else ''unknown''),
      (''time_of_day'',
         if any_in [''night'', ''evening'', ''dark''] (lower caption) then ''night''
         else if any_in [''morning'', ''sunrise''] (lower caption) then ''morning''
         else if any_in [''afternoon'', ''day'', ''sunny'', ''bright''] (lower caption)
           then ''day''
         else if any_in [''sunset'', ''dusk''] (lower caption) then ''evening''
         else ''unknown''),
      (''activity_level'',
         if any_in [''running'', ''jumping'', ''dancing'', ''playing'', ''exercising'',
              ''working out''] (lower caption) then ''high''
         else if any_in [''walking'', ''standing'', ''working''] (lower caption) then ''medium''
         else if any_in [''sitting'', ''lying'', ''sleeping'', ''resting''] (lower caption)
           then ''low''
         else ''unknown''),
      (''social_context'',
         if any_in [''group'', ''people'', ''crowd'', ''team'', ''family''] (lower caption)
           then ''group''
         else if any_in [''person'', ''man'', ''woman'', ''individual''] (lower caption)
           then ''individual''
         else ''unknown''),
      (''mood'',
         if any_in [''smiling'', ''happy'', ''celebrating'', ''laughing''] (lower caption)
           then ''positive''
         else if any_in [''focused'', ''concentrated'', ''serious'', ''determined'']
              (lower caption) then ''focused''
         else if any_in [''relaxed'', ''calm'', ''peaceful''] (lower caption) then ''calm''
         else ''neutral'')]"
  unfolding analyze_scene_context_def
  by (subst Let_def) (simp add: if_entry_merge split del: if_split cong del: if_weak_cong)

lemma context_keys:
  "map fst (analyze_scene_context caption) =
     [''setting'', ''time_of_day'', ''activity_level'', ''social_context'', ''mood'']"
  by (simp add: analyze_scene_context_eq split del: if_split)

lemma context_setting:
  "map_of (analyze_scene_context caption) ''setting'' =
     Some (if keyword_occurs [''indoor'', ''inside'', ''room'', ''office'', ''house'',
                ''building''] caption then ''indoor''
           else if keyword_occurs [''outdoor'', ''outside'', ''park'', ''street'', ''beach'',
                ''field'', ''forest''] caption then ''outdoor''
           else ''unknown'')"
  by (simp add: analyze_scene_context_eq any_in_iff split del: if_split cong del: if_weak_cong)

lemma context_time_of_day:
  "map_of (analyze_scene_context caption) ''time_of_day'' =
     Some (if keyword_occurs [''night'', ''evening'', ''dark''] caption then ''night''
           else if keyword_occurs [''morning'', ''sunrise''] caption then ''morning''
           else if keyword_occurs [''afternoon'', ''day'', ''sunny'', ''bright''] caption
             then ''day''
           else if keyword_occurs [''sunset'', ''dusk''] caption then ''evening''
           else ''unknown'')"
  by (simp add: analyze_scene_context_eq any_in_iff split del: if_split cong del: if_weak_cong)

lemma context_activity_level:
  "map_of (analyze_scene_context caption) ''activity_level'' =
     Some (if keyword_occurs [''running'', ''jumping'', ''dancing'', ''playing'',
                ''exercising'', ''working out''] caption then ''high''
           else if keyword_occurs [''walking'', ''standing'', ''working''] caption
             then ''medium''
           else if keyword_occurs [''sitting'', ''lying'', ''sleeping'', ''resting''] caption
             then ''low''
           else ''unknown'')"
  by (simp add: analyze_scene_context_eq any_in_iff split del: if_split cong del: if_weak_cong)

lemma context_social_context:
  "map_of (analyze_scene_context caption) ''social_context'' =
     Some (if keyword_occurs [''group'', ''people'', ''crowd'', ''team'', ''family''] caption
             then ''group''
           else if keyword_occurs [''person'', ''man'', ''woman'', ''individual''] caption
             then ''individual''
           else ''unknown'')"
  by (simp add: analyze_scene_context_eq any_in_iff split del: if_split cong del: if_weak_cong)

lemma context_mood:
  "map_of (analyze_scene_context caption) ''mood'' =
     Some (if keyword_occurs [''smiling'', ''happy'', ''celebrating'', ''laughing''] caption
             then ''positive''
           else if keyword_occurs [''focused'', ''concentrated'', ''serious'',
                ''determined''] caption then ''focused''
           else if keyword_occurs [''relaxed'', ''calm'', ''peaceful''] caption then ''calm''
           else ''neutral'')"
  by (simp add: analyze_scene_context_eq any_in_iff split del: if_split cong del: if_weak_cong)

text \<open>
  Claim C1, as amended. A keyword group of \<open>analyze_scene_context\<close> matches exactly when
  one of its keywords occurs in the lower-cased caption as a substring, at any position
  and also inside a longer word; every field takes the value of its first matching
  group, and its default when none matches.
\<close>

theorem scene_context_by_substring:
  "analyze_scene_context caption =
     [(''setting'',
         if keyword_occurs [''indoor'', ''inside'', ''room'', ''office'', ''house'',
              ''building''] caption then ''indoor''
         else if keyword_occurs [''outdoor'', ''outside'', ''park'', ''street'', ''beach'',
              ''field'', ''forest''] caption then ''outdoor''
         else ''unknown''),
      (''time_of_day'',
         if keyword_occurs [''night'', ''evening'', ''dark''] caption then ''night''
         else if keyword_occurs [''morning'', ''sunrise''] caption then ''morning''
         else if keyword_occurs [''afternoon'', ''day'', ''sunny'', ''bright''] caption
           then ''day''
         else if keyword_occurs [''sunset'', ''dusk''] caption then ''evening''
         else ''unknown''),
      (''activity_level'',
         if keyword_occurs [''running'', ''jumping'', ''dancing'', ''playing'',
              ''exercising'', ''working out''] caption then ''high''
         else if keyword_occurs [''walking'', ''standing'', ''working''] caption
           then ''medium''
         else if keyword_occurs [''sitting'', ''lying'', ''sleeping'', ''resting''] caption
           then ''low''
         else ''unknown''),
      (''social_context'',
         if keyword_occurs [''group'', ''people'', ''crowd'', ''team'', ''family''] caption
           then ''group''
         else if keyword_occurs [''person'', ''man'', ''woman'', ''individual''] caption
           then ''individual''
         else ''unknown''),
      (''mood'',
         if keyword_occurs [''smiling'', ''happy'', ''celebrating'', ''laughing''] caption
           then ''positive''
         else if keyword_occurs [''focused'', ''concentrated'', ''serious'',
              ''determined''] caption then ''focused''
         else if keyword_occurs [''relaxed'', ''calm'', ''peaceful''] caption then ''calm''
         else ''neutral'')]"
  by (simp only: analyze_scene_context_eq any_in_iff)

theorem scene_context_by_substring_witness:
  "analyze_scene_context ''Personally'' =
     [(''setting'', ''unknown''), (''time_of_day'', ''unknown''),
      (''activity_level'', ''unknown''), (''social_context'', ''individual''),
      (''mood'', ''neutral'')]"
  unfolding scene_context_by_substring [of "''Personally''"] by code_simp

text \<open>
  The claim as stated fails: the only word of the caption \<open>personally\<close> is no keyword of
  the group of \<open>individual\<close>, and yet the group matches.
\<close>

theorem keyword_inside_word_counterexample:
  "spec_caption_words ''personally'' = [''personally''] \<and>
   ''personally'' \<notin> set [''person'', ''man'', ''woman'', ''individual''] \<and>
   map_of (analyze_scene_context ''personally'') ''social_context'' = Some ''individual''"
  by code_simp

text \<open>
  Claim C2, as amended. The groups of \<open>time_of_day\<close> are tried in the order night
  (\<open>night\<close>, \<open>evening\<close>, \<open>dark\<close>), morning (\<open>morning\<close>, \<open>sunrise\<close>), day (\<open>afternoon\<close>,
  \<open>day\<close>, \<open>sunny\<close>, \<open>bright\<close>), evening (\<open>sunset\<close>, \<open>dusk\<close>): a caption with keywords
  of several groups gets the value of the earliest of them in this order.
\<close>

theorem time_of_day_priority:
  "map_of (analyze_scene_context caption) ''time_of_day'' =
     Some (if keyword_occurs [''night'', ''evening'', ''dark''] caption then ''night''
           else if keyword_occurs [''morning'', ''sunrise''] caption then ''morning''
           else if keyword_occurs [''afternoon'', ''day'', ''sunny'', ''bright''] caption
             then ''day''
           else if keyword_occurs [''sunset'', ''dusk''] caption then ''evening''
           else ''unknown'')"
  by (rule context_time_of_day)

theorem time_of_day_priority_witness:
  "map_of (analyze_scene_context ''sunset after a sunny morning'') ''time_of_day'' =
     Some ''morning''"
  unfolding time_of_day_priority [of "''sunset after a sunny morning''"] by code_simp

text \<open>
  The claim as stated fails: with a morning keyword and a night keyword the value is
  \<open>night\<close>, not \<open>morning\<close>.
\<close>

theorem morning_and_night_counterexample:
  "spec_caption_words ''morning and night'' = [''morning'', ''and'', ''night''] \<and>
   map_of (analyze_scene_context ''morning and night'') ''time_of_day'' = Some ''night''"
  by code_simp

text \<open>
  Claim C7, as amended. For every caption \<open>analyze_scene_context\<close> returns exactly the
  five fields, each with a value of its domain. The record built on failure carries an
  empty scene context, with none of the fields.
\<close>

theorem scene_context_five_fields:
  "map fst (analyze_scene_context caption) =
     [''setting'', ''time_of_day'', ''activity_level'', ''social_context'', ''mood'']
   \<and> map_of (analyze_scene_context caption) ''setting''
       \<in> {Some ''indoor'', Some ''outdoor'', Some ''unknown''}
   \<and> map_of (analyze_scene_context caption) ''time_of_day''
       \<in> {Some ''morning'', Some ''day'', Some ''evening'', Some ''night'', Some ''unknown''}
   \<and> map_of (analyze_scene_context caption) ''activity_level''
       \<in> {Some ''high'', Some ''medium'', Some ''low'', Some ''unknown''}
   \<and> map_of (analyze_scene_context caption) ''social_context''
       \<in> {Some ''group'', Some ''individual'', Some ''unknown''}
   \<and> map_of (analyze_scene_context caption) ''mood''
       \<in> {Some ''positive'', Some ''focused'', Some ''calm'', Some ''neutral''}
   \<and> record_field
         (generate_ai_optimized_description list_set device now image_path (Inl msg))
         ''scene_context'' = Some (PDict [])"
proof (intro conjI)
  show "map fst (analyze_scene_context caption) =
     [''setting'', ''time_of_day'', ''activity_level'', ''social_context'', ''mood'']"
    by (rule context_keys)
  show "map_of (analyze_scene_context caption) ''setting''
       \<in> {Some ''indoor'', Some ''outdoor'', Some ''unknown''}"
    unfolding context_setting by simp
  show "map_of (analyze_scene_context caption) ''time_of_day''
       \<in> {Some ''morning'', Some ''day'', Some ''evening'', Some ''night'', Some ''unknown''}"
    unfolding context_time_of_day by simp
  show "map_of (analyze_scene_context caption) ''activity_level''
       \<in> {Some ''high'', Some ''medium'', Some ''low'', Some ''unknown''}"
    unfolding context_activity_level by simp
  show "map_of (analyze_scene_context caption) ''social_context''
       \<in> {Some ''group'', Some ''individual'', Some ''unknown''}"
    unfolding context_social_context by simp
  show "map_of (analyze_scene_context caption) ''mood''
       \<in> {Some ''positive'', Some ''focused'', Some ''calm'', Some ''neutral''}"
    unfolding context_mood by simp
  show "record_field
         (generate_ai_optimized_description list_set device now image_path (Inl msg))
         ''scene_context'' = Some (PDict [])"
    by (simp add: generate_ai_optimized_description_def try_block_def record_field_def)
qed

theorem scene_context_five_fields_witness:
  "map fst (analyze_scene_context ''a man running in a park'') =
     [''setting'', ''time_of_day'', ''activity_level'', ''social_context'', ''mood'']
   \<and> map_of (analyze_scene_context ''a man running in a park'') ''setting''
       \<in> {Some ''indoor'', Some ''outdoor'', Some ''unknown''}"
  using scene_context_five_fields [of "''a man running in a park''"] by blast

text \<open>
  The claim as stated fails on the error path: the scene context of the error record
  has no \<open>setting\<close> field.
\<close>

theorem error_record_scene_context_counterexample:
  "record_field
     (generate_ai_optimized_description remdups ''cpu'' ''2024-05-01T10:00:00'' ''x.jpg''
        (Inl ''file not found''))
     ''scene_context'' = Some (PDict []) \<and>
   record_field (PDict []) ''setting'' = None"
  by code_simp

section \<open>Description synthesis\<close>

lemma contains_join: "p \<in> set ps \<Longrightarrow> contains (join sep ps) p"
proof (induction sep ps rule: join.induct)
  case (1 sep)
  then show ?case by simp
next
  case (2 sep q)
  then have "join sep [q] = [] @ p @ []" by simp
  then show ?case unfolding contains_iff by blast
next
  case (3 sep q r ps)
  show ?case
  proof (cases "p = q")
    case True
    then have "join sep (q # r # ps) = [] @ p @ (sep @ join sep (r # ps))" by simp
    then show ?thesis unfolding contains_iff by blast
  next
    case False
    with 3 have "contains (join sep (r # ps)) p" by simp
    then obtain before after where "join sep (r # ps) = before @ p @ after"
      unfolding contains_iff by blast
    then have "join sep (q # r # ps) = (q @ sep @ before) @ p @ after" by simp
    then show ?thesis unfolding contains_iff by blast
  qed
qed

text \<open>The parts of the description, for a context that holds the four fields read.\<close>

lemma create_ai_description_parts:
  assumes "map_of context ''setting'' = Some setting"
    and "map_of context ''time_of_day'' = Some time_of_day"
    and "map_of context ''activity_level'' = Some activity_level"
    and "map_of context ''social_context'' = Some social_context"
  shows "create_ai_description caption context tags =
     Inr (join '' ''
       ([caption]
        @ (if setting \<noteq> ''unknown''
           then [''This appears to be an '' @ setting @ '' scene.''] else [])
        @ (if time_of_day \<noteq> ''unknown''
           then [''The time appears to be '' @ time_of_day @ ''.''] else [])
        @ (if activity_level \<noteq> ''unknown''
           then [''The activity level in the image is '' @ activity_level @ ''.''] else [])
        @ (if social_context \<noteq> ''unknown''
           then [if social_context = ''group''
                 then ''This involves multiple people or a group setting.''
                 else ''This focuses on an individual person.''] else [])
        @ (if tags \<noteq> [] \<and>
              filter (\<lambda>tag. tag \<notin> set [''person'', ''people'', ''man'', ''woman'']) tags \<noteq> []
           then [''Key elements include: '' @
                 join '', '' (take 5 (filter
                   (\<lambda>tag. tag \<notin> set [''person'', ''people'', ''man'', ''woman'']) tags)) @ ''.'']
           else [])))"
  unfolding create_ai_description_def getitem_def
  by (simp only: assms option.case sum.case Let_def) simp

lemma getitem_update_other:
  "k \<noteq> k' \<Longrightarrow> getitem (AList.update k' v context) k = getitem context k"
  by (simp add: getitem_def update_conv)

text \<open>
  Claim C3, as amended. For every caption, tag list and context holding the four fields
  \<open>setting\<close>, \<open>time_of_day\<close>, \<open>activity_level\<close> and \<open>social_context\<close>, the description
  contains the sentence of each of these fields whose value is not \<open>unknown\<close>. The
  \<open>mood\<close> field has no sentence: changing it leaves the description as it is.
\<close>

theorem description_sentences:
  assumes "map_of context ''setting'' = Some setting"
    and "map_of context ''time_of_day'' = Some time_of_day"
    and "map_of context ''activity_level'' = Some activity_level"
    and "map_of context ''social_context'' = Some social_context"
  shows "\<exists>description.
     create_ai_description caption context tags = Inr description
     \<and> (setting \<noteq> ''unknown'' \<longrightarrow>
          contains description (''This appears to be an '' @ setting @ '' scene.''))
     \<and> (time_of_day \<noteq> ''unknown'' \<longrightarrow>
          contains description (''The time appears to be '' @ time_of_day @ ''.''))
     \<and> (activity_level \<noteq> ''unknown'' \<longrightarrow>
          contains description
            (''The activity level in the image is '' @ activity_level @ ''.''))
     \<and> (social_context = ''group'' \<longrightarrow>
          contains description ''This involves multiple people or a group setting.'')
     \<and> (social_context \<noteq> ''unknown'' \<and> social_context \<noteq> ''group'' \<longrightarrow>
          contains description ''This focuses on an individual person.'')
     \<and> create_ai_description caption (AList.update ''mood'' mood context) tags =
          Inr description"
proof -
  let ?parts = "[caption]
        @ (if setting \<noteq> ''unknown''
           then [''This appears to be an '' @ setting @ '' scene.''] else [])
        @ (if time_of_day \<noteq> ''unknown''
           then [''The time appears to be '' @ time_of_day @ ''.''] else [])
        @ (if activity_level \<noteq> ''unknown''
           then [''The activity level in the image is '' @ activity_level @ ''.''] else [])
        @ (if social_context \<noteq> ''unknown''
           then [if social_context = ''group''
                 then ''This involves multiple people or a group setting.''
                 else ''This focuses on an individual person.''] else [])
        @ (if tags \<noteq> [] \<and>
              filter (\<lambda>tag. tag \<notin> set [''person'', ''people'', ''man'', ''woman'']) tags \<noteq> []
           then [''Key elements include: '' @
                 join '', '' (take 5 (filter
                   (\<lambda>tag. tag \<notin> set [''person'', ''people'', ''man'', ''woman'']) tags)) @ ''.'']
           else [])"
  define description where "description = join '' '' ?parts"
  have d: "create_ai_description caption context tags = Inr description"
    unfolding description_def by (rule create_ai_description_parts [OF assms])
  have s1: "contains description (''This appears to be an '' @ setting @ '' scene.'')"
    if "setting \<noteq> ''unknown''"
    unfolding description_def using that by (intro contains_join) simp
  have s2: "contains description (''The time appears to be '' @ time_of_day @ ''.'')"
    if "time_of_day \<noteq> ''unknown''"
    unfolding description_def using that by (intro contains_join) simp
  have s3: "contains description
      (''The activity level in the image is '' @ activity_level @ ''.'')"
    if "activity_level \<noteq> ''unknown''"
    unfolding description_def using that by (intro contains_join) simp
  have s4: "contains description ''This involves multiple people or a group setting.''"
    if "social_context = ''group''"
    unfolding description_def using that by (intro contains_join) simp
  have s5: "contains description ''This focuses on an individual person.''"
    if "social_context \<noteq> ''unknown'' \<and> social_context \<noteq> ''group''"
    unfolding description_def using that by (intro contains_join) simp
  have "create_ai_description caption (AList.update ''mood'' mood context) tags =
      create_ai_description caption context tags"
    unfolding create_ai_description_def
    by (simp only: getitem_update_other [of _ "''mood''"] list.inject char.inject simp_thms)
  with d have m: "create_ai_description caption (AList.update ''mood'' mood context) tags =
      Inr description"
    by (simp only:)
  from d s1 s2 s3 s4 s5 m show ?thesis by blast
qed

theorem description_sentences_witness:
  "create_ai_description ''a man running in a park''
     (analyze_scene_context ''a man running in a park'') [''man'', ''running'', ''park''] =
   Inr (''a man running in a park This appears to be an outdoor scene. '' @
        ''The activity level in the image is high. '' @
        ''This focuses on an individual person. Key elements include: running, park.'')
   \<and> contains
        (''a man running in a park This appears to be an outdoor scene. '' @
         ''The activity level in the image is high. '' @
         ''This focuses on an individual person. Key elements include: running, park.'')
        ''This appears to be an outdoor scene.''"
proof -
  have c: "analyze_scene_context ''a man running in a park'' =
    [(''setting'', ''outdoor''), (''time_of_day'', ''unknown''),
     (''activity_level'', ''high''), (''social_context'', ''individual''),
     (''mood'', ''neutral'')]"
    by code_simp
  have r: "create_ai_description ''a man running in a park''
     (analyze_scene_context ''a man running in a park'') [''man'', ''running'', ''park''] =
   Inr (''a man running in a park This appears to be an outdoor scene. '' @
        ''The activity level in the image is high. '' @
        ''This focuses on an individual person. Key elements include: running, park.'')"
    by code_simp
  from description_sentences [of "analyze_scene_context ''a man running in a park''"
      "''outdoor''" "''unknown''" "''high''" "''individual''" "''a man running in a park''"
      "[''man'', ''running'', ''park'']" "''neutral''"]
  obtain description where
    "create_ai_description ''a man running in a park''
       (analyze_scene_context ''a man running in a park'') [''man'', ''running'', ''park''] =
     Inr description"
    and "contains description (''This appears to be an '' @ ''outdoor'' @ '' scene.'')"
    unfolding c by auto
  with r show ?thesis by simp
qed

text \<open>
  The claim as stated fails for the mood: the caption \<open>smiling\<close> has mood \<open>positive\<close>,
  and its description is the caption alone.
\<close>

theorem no_mood_sentence_counterexample:
  "map_of (analyze_scene_context ''smiling'') ''mood'' = Some ''positive'' \<and>
   create_ai_description ''smiling'' (analyze_scene_context ''smiling'')
     (extract_tags_from_caption remdups ''smiling'') = Inr ''smiling''"
  by code_simp

section \<open>The simple caption\<close>

lemma first_caption_text_empty:
  "map_of r ''captions'' = Some (PList []) \<Longrightarrow> first_caption_text (PDict r) = Inl IndexError"
  by (simp add: first_caption_text_def dict_get_def)

lemma try_block_captions:
  assumes "try_block list_set device now image_path (Inr out) = Inr result"
  shows "first_caption_text result = Inr (PStr (standard_caption out))"
proof -
  from assms obtain fields where
    r: "result = PDict fields"
    and c: "map_of fields ''captions'' =
      Some (PList
        [PDict [(''type'', PStr ''standard''), (''text'', PStr (standard_caption out)),
                (''confidence'', PFloat 85)],
         PDict [(''type'', PStr ''detailed''), (''text'', PStr (detailed_caption out)),
                (''confidence'', PFloat 80)]])"
    by (auto simp add: try_block_def Let_def split: sum.splits)
  show ?thesis
    unfolding r first_caption_text_def dict_get_def by (simp add: c)
qed

text \<open>
  Claim C9. When \<open>generate_ai_optimized_description\<close> takes its error path, the record
  it returns has the empty list under \<open>captions\<close>, and \<open>image_to_caption\<close> on the same
  input raises \<open>IndexError\<close>. On the other path \<open>image_to_caption\<close> returns the text of
  the standard caption. In general the expression returns a value only when the list of
  captions (or the default \<open>[{}]\<close>) has a first element, and then the fallback string
  stands in only for a missing \<open>text\<close> key of that element.
\<close>

theorem image_to_caption_error_path:
  "(try_block list_set device now image_path upstream = Inl e \<longrightarrow>
      record_field (generate_ai_optimized_description list_set device now image_path upstream)
        ''captions'' = Some (PList [])
      \<and> image_to_caption list_set device now image_path upstream = Inl IndexError)
   \<and> (try_block list_set device now image_path (Inr out) = Inr result \<longrightarrow>
      image_to_caption list_set device now image_path (Inr out) =
        Inr (PStr (standard_caption out)))
   \<and> (first_caption_text (PDict r) = Inr v \<longrightarrow>
      (\<exists>c rest. dict_get r ''captions'' (PList [PDict []]) = PList (PDict c # rest)
         \<and> v = dict_get c ''text'' (PStr ''Unable to generate caption'')))"
proof (intro conjI impI)
  assume e: "try_block list_set device now image_path upstream = Inl e"
  show "record_field (generate_ai_optimized_description list_set device now image_path upstream)
        ''captions'' = Some (PList [])"
    by (simp add: generate_ai_optimized_description_def e record_field_def)
  show "image_to_caption list_set device now image_path upstream = Inl IndexError"
    unfolding image_to_caption_def generate_ai_optimized_description_def
    by (simp add: e first_caption_text_empty)
next
  assume s: "try_block list_set device now image_path (Inr out) = Inr result"
  then show "image_to_caption list_set device now image_path (Inr out) =
        Inr (PStr (standard_caption out))"
    unfolding image_to_caption_def generate_ai_optimized_description_def
    by (simp add: try_block_captions)
next
  assume "first_caption_text (PDict r) = Inr v"
  then show "\<exists>c rest. dict_get r ''captions'' (PList [PDict []]) = PList (PDict c # rest)
         \<and> v = dict_get c ''text'' (PStr ''Unable to generate caption'')"
    by (auto simp add: first_caption_text_def split: pyval.splits list.splits)
qed

theorem image_to_caption_error_path_witness:
  "try_block remdups ''cpu'' ''2024-05-01T10:00:00'' ''data/x.jpg'' (Inl ''file not found'') =
     Inl (UpstreamError ''file not found'')
   \<and> image_to_caption remdups ''cpu'' ''2024-05-01T10:00:00'' ''data/x.jpg''
       (Inl ''file not found'') = Inl IndexError
   \<and> first_caption_text (PDict [(''captions'', PList [PDict []])]) =
       Inr (PStr ''Unable to generate caption'')"
proof -
  have t: "try_block remdups ''cpu'' ''2024-05-01T10:00:00'' ''data/x.jpg''
      (Inl ''file not found'') = Inl (UpstreamError ''file not found'')"
    by (simp add: try_block_def)
  have f: "first_caption_text (PDict [(''captions'', PList [PDict []])]) =
      Inr (PStr ''Unable to generate caption'')"
    by (simp add: first_caption_text_def dict_get_def)
  from t f image_to_caption_error_path
    [of remdups "''cpu''" "''2024-05-01T10:00:00''" "''data/x.jpg''" "Inl ''file not found''"
      "UpstreamError ''file not found''"]
  show ?thesis by blast
qed

section \<open>Tag extraction\<close>

lemma is_word_char_lower: "is_word_char (lower_char c) = is_word_char c"
proof (cases "65 \<le> (of_char c :: nat) \<and> (of_char c :: nat) \<le> 90")
  case True
  then have "(of_char c + 32 :: nat) mod 256 = of_char c + 32" by simp
  with True show ?thesis
    by (simp add: is_word_char_def lower_char_def Let_def)
next
  case False
  then show ?thesis by (auto simp add: lower_char_def Let_def)
qed

lemma match_alt_boundary:
  "match_alt wordc alts rest = Some w \<Longrightarrow>
     word_boundary wordc (Some (last w)) (drop (length w) rest)"
  by (induction alts) (auto split: if_splits)

lemma startswith_drop: "startswith rest w \<Longrightarrow> rest = w @ drop (length w) rest"
  by (auto simp add: startswith_iff)

text \<open>
  Every match that \<open>findall\<close> reports is an alternative of the pattern that stands in
  the text between two word boundaries.
\<close>

lemma findall_sound:
  "w \<in> set (findall wordc alts prev rest) \<Longrightarrow>
     \<exists>p q. rest = p @ w @ q \<and> w \<in> set alts \<and> w \<noteq> []
       \<and> word_boundary wordc (if p = [] then prev else Some (last p)) (w @ q)
       \<and> word_boundary wordc (Some (last w)) q"
proof (induction wordc alts prev rest rule: findall.induct)
  case (1 wordc alts prev)
  then show ?case by simp
next
  case (2 wordc alts prev c cs)
  show ?case
  proof (cases "match_here wordc alts prev (c # cs)")
    case None
    with "2.prems" have "w \<in> set (findall wordc alts (Some c) cs)" by simp
    with "2.IH" None obtain p q where
      e: "cs = p @ w @ q" and a: "w \<in> set alts" "w \<noteq> []"
      and b: "word_boundary wordc (if p = [] then Some c else Some (last p)) (w @ q)"
      and b': "word_boundary wordc (Some (last w)) q"
      by blast
    from e have "c # cs = (c # p) @ w @ q" by simp
    moreover from b have
      "word_boundary wordc (if c # p = [] then prev else Some (last (c # p))) (w @ q)"
      by (cases p) simp_all
    ultimately show ?thesis using a b' by blast
  next
    case (Some w0)
    then have wb: "word_boundary wordc prev (c # cs)"
      and m: "match_alt wordc alts (c # cs) = Some w0"
      by (auto simp add: match_here_def split: if_splits)
    from m have w0: "w0 \<noteq> []" "startswith (c # cs) w0" "w0 \<in> set alts"
      using match_alt_Some by blast+
    from m have b0: "word_boundary wordc (Some (last w0)) (drop (length w0) (c # cs))"
      by (rule match_alt_boundary)
    from w0(2) have e0: "c # cs = w0 @ drop (length w0) (c # cs)"
      by (rule startswith_drop)
    from "2.prems" Some consider "w = w0"
      | "w \<in> set (findall wordc alts (Some (last w0)) (drop (length w0) (c # cs)))"
      by auto
    then show ?thesis
    proof cases
      case 1
      from e0 have "c # cs = [] @ w0 @ drop (length w0) (c # cs)" by simp
      moreover from wb e0 have
        "word_boundary wordc (if ([]::'a list) = [] then prev else Some (last []))
           (w0 @ drop (length w0) (c # cs))"
        by simp
      ultimately show ?thesis using 1 w0 b0 by blast
    next
      case 2
      with "2.IH" Some obtain p q where
        e: "drop (length w0) (c # cs) = p @ w @ q" and a: "w \<in> set alts" "w \<noteq> []"
        and b: "word_boundary wordc (if p = [] then Some (last w0) else Some (last p))
          (w @ q)"
        and b': "word_boundary wordc (Some (last w)) q"
        by blast
      from e0 e have "c # cs = (w0 @ p) @ w @ q" by simp
      moreover from b w0(1) have
        "word_boundary wordc (if w0 @ p = [] then prev else Some (last (w0 @ p))) (w @ q)"
        by (cases p) simp_all
      ultimately show ?thesis using a b' by blast
    qed
  qed
qed

lemma last_char_append: "m \<noteq> [] \<Longrightarrow> last_char (a @ m) = Some (last m)"
  by (simp add: last_char_def)

lemma findall_word_match:
  assumes "w \<in> set (findall wordc alts None text)"
  shows "w \<in> set alts \<and> word_match wordc text w"
proof -
  from findall_sound [OF assms] obtain p q where
    e: "text = p @ w @ q" and a: "w \<in> set alts" "w \<noteq> []"
    and b: "word_boundary wordc (if p = [] then None else Some (last p)) (w @ q)"
    and b': "word_boundary wordc (Some (last w)) q"
    by blast
  from b have b1: "word_boundary wordc (last_char p) (w @ q)"
    unfolding last_char_def .
  from b' have b2: "word_boundary wordc (last_char (p @ w)) q"
    by (simp only: last_char_append [OF a(2)])
  from e a b1 b2 show ?thesis unfolding word_match_def by blast
qed

text \<open>A lowering that works character by character and keeps the word class.\<close>

lemma is_word_last_char_map:
  assumes "\<forall>c \<in> set s. wordc (lc c) = wordc c"
  shows "is_word wordc (last_char (map lc s)) = is_word wordc (last_char s)"
proof (cases "s = []")
  case True
  then show ?thesis by (simp add: last_char_def)
next
  case False
  then have "last s \<in> set s" by simp
  with assms have "wordc (lc (last s)) = wordc (last s)" by blast
  with False show ?thesis by (simp add: last_char_def is_word_def last_map)
qed

lemma is_word_next_char_map:
  assumes "\<forall>c \<in> set s. wordc (lc c) = wordc c"
  shows "is_word wordc (next_char (map lc s)) = is_word wordc (next_char s)"
  using assms by (cases s) (simp_all add: next_char_def is_word_def)

lemma word_boundary_map:
  assumes "\<forall>c \<in> set before. wordc (lc c) = wordc c"
    and "\<forall>c \<in> set after. wordc (lc c) = wordc c"
  shows "word_boundary wordc (last_char (map lc before)) (map lc after) =
         word_boundary wordc (last_char before) after"
  unfolding word_boundary_def
  by (simp only: is_word_last_char_map [OF assms(1)] is_word_next_char_map [OF assms(2)])

lemma map_eq_append3:
  assumes "map lc s = p @ w @ q"
  shows "\<exists>before m after. s = before @ m @ after \<and> p = map lc before \<and> w = map lc m
           \<and> q = map lc after"
proof -
  from assms obtain before r where s: "s = before @ r" and p: "p = map lc before"
    and r: "w @ q = map lc r"
    using map_eq_append_conv [of lc s p "w @ q"] by blast
  from r obtain m after where m: "r = m @ after" "w = map lc m" "q = map lc after"
    using append_eq_map_conv [of w q lc r] by blast
  from s m(1) have "s = before @ m @ after" by (simp only:)
  with p m(2,3) show ?thesis by blast
qed

lemma word_match_map:
  assumes w: "word_match wordc (map lc text) tag"
    and k: "\<forall>c \<in> set text. wordc (lc c) = wordc c"
  shows "\<exists>m. map lc m = tag \<and> set m \<subseteq> set text \<and> word_match wordc text m"
proof -
  from w obtain p q where ne: "tag \<noteq> []" and e: "map lc text = p @ tag @ q"
    and b: "word_boundary wordc (last_char p) (tag @ q)"
    and b': "word_boundary wordc (last_char (p @ tag)) q"
    unfolding word_match_def by blast
  from map_eq_append3 [OF e] obtain before m after where
    c: "text = before @ m @ after" and l: "p = map lc before" "tag = map lc m"
      "q = map lc after"
    by blast
  from ne have m: "m \<noteq> []" unfolding l by simp
  from c have sub: "set before \<subseteq> set text" "set m \<subseteq> set text" "set after \<subseteq> set text"
    "set (m @ after) \<subseteq> set text" "set (before @ m) \<subseteq> set text"
    by auto
  from k sub have k1: "\<forall>c \<in> set before. wordc (lc c) = wordc c"
    and k2: "\<forall>c \<in> set (m @ after). wordc (lc c) = wordc c"
    and k3: "\<forall>c \<in> set (before @ m). wordc (lc c) = wordc c"
    and k4: "\<forall>c \<in> set after. wordc (lc c) = wordc c"
    by blast+
  from b have "word_boundary wordc (last_char (map lc before)) (map lc (m @ after))"
    unfolding l by simp
  then have b1: "word_boundary wordc (last_char before) (m @ after)"
    by (simp only: word_boundary_map [OF k1 k2])
  from b' have "word_boundary wordc (last_char (map lc (before @ m))) (map lc after)"
    unfolding l by simp
  then have b2: "word_boundary wordc (last_char (before @ m)) after"
    by (simp only: word_boundary_map [OF k3 k4])
  from c m b1 b2 have "word_match wordc text m"
    unfolding word_match_def by blast
  with l(2) sub(2) show ?thesis by blast
qed

text \<open>The three-way cuts of a text are its decompositions.\<close>

lemma set_splits: "set (splits xs) = {(p, s). xs = p @ s}"
proof (induction xs)
  case Nil
  then show ?case by simp
next
  case (Cons x xs)
  show ?case
  proof (intro equalityI subsetI)
    fix ps
    assume "ps \<in> set (splits (x # xs))"
    then consider "ps = ([], x # xs)"
      | p s where "ps = (x # p, s)" "(p, s) \<in> set (splits xs)"
      by auto
    then show "ps \<in> {(p, s). x # xs = p @ s}"
    proof cases
      case 1
      then show ?thesis by simp
    next
      case 2
      with Cons.IH show ?thesis by simp
    qed
  next
    fix ps
    assume "ps \<in> {(p, s). x # xs = p @ s}"
    then obtain p s where ps: "ps = (p, s)" and e: "x # xs = p @ s" by blast
    show "ps \<in> set (splits (x # xs))"
    proof (cases p)
      case Nil
      with e have "s = x # xs" by simp
      with Nil ps show ?thesis by simp
    next
      case (Cons y p')
      with e have "y = x" "xs = p' @ s" by simp_all
      with Cons.IH have "(p', s) \<in> set (splits xs)" by simp
      with Cons ps \<open>y = x\<close> show ?thesis by force
    qed
  qed
qed

lemma set_pieces: "set (pieces text) = {(before, m, after). text = before @ m @ after}"
  unfolding pieces_def by (auto simp add: set_splits)

lemma insensitive_word_match_code [code]:
  "insensitive_word_match str_lower wordc text tag =
     list_ex (\<lambda>(before, m, after). str_lower m = tag \<and> m \<noteq> []
         \<and> word_boundary wordc (last_char before) (m @ after)
         \<and> word_boundary wordc (last_char (before @ m)) after)
       (pieces text)"
  unfolding insensitive_word_match_def word_match_def list_ex_iff set_pieces by auto

text \<open>
  Claim C5, as amended. For every caption, whatever \<open>str.lower\<close> and \<open>\w\<close> are,
  \<open>extract_tags_from_caption\<close> returns a list without duplicates in which every term is
  a word of the tag table and a word-boundary match in the lower-cased caption. Where
  lowering works on the caption character by character and keeps the word class of its
  characters, as on every caption of ASCII characters, every term is a word-boundary,
  case-insensitive match in the caption itself. The function is total, so it raises
  nothing, and for the empty caption it returns the empty list.
\<close>

theorem extract_tags_match_lowered_caption:
  assumes "set_listing list_set"
  shows "distinct (extract_tags_from_caption_by str_lower wordc lit list_set caption)
    \<and> (\<forall>tag \<in> set (extract_tags_from_caption_by str_lower wordc lit list_set caption).
         tag \<in> map lit ` (\<Union>(category, pattern) \<in> set tag_patterns. set pattern)
         \<and> word_match wordc (str_lower caption) tag)
    \<and> ((\<forall>s. set s \<subseteq> set caption \<longrightarrow> str_lower s = map lc s)
          \<and> (\<forall>c \<in> set caption. wordc (lc c) = wordc c) \<longrightarrow>
        (\<forall>tag \<in> set (extract_tags_from_caption_by str_lower wordc lit list_set caption).
           insensitive_word_match str_lower wordc caption tag))
    \<and> (str_lower [] = [] \<longrightarrow>
        extract_tags_from_caption_by str_lower wordc lit list_set [] = [])"
proof -
  let ?tags = "extract_tags_from_caption_by str_lower wordc lit list_set caption"
  have found: "tag \<in> map lit ` (\<Union>(category, pattern) \<in> set tag_patterns. set pattern)
      \<and> word_match wordc (str_lower caption) tag"
    if "tag \<in> set ?tags" for tag
  proof -
    from that have "tag \<in> set (concat (map (\<lambda>(category, pattern).
        findall wordc (map (map lit) pattern) None (str_lower caption)) tag_patterns))"
      unfolding extract_tags_from_caption_by_def Let_def set_listing_set [OF assms] .
    then obtain category pattern where
      p: "(category, pattern) \<in> set tag_patterns"
      and t: "tag \<in> set (findall wordc (map (map lit) pattern) None (str_lower caption))"
      by auto
    from findall_word_match [OF t] have "tag \<in> map lit ` set pattern"
      and m: "word_match wordc (str_lower caption) tag"
      by simp_all
    with p have "tag \<in> map lit ` (\<Union>(category, pattern) \<in> set tag_patterns. set pattern)"
      by blast
    with m show ?thesis by blast
  qed
  have d: "distinct ?tags"
    unfolding extract_tags_from_caption_by_def Let_def
    by (rule set_listing_distinct [OF assms])
  have i: "insensitive_word_match str_lower wordc caption tag"
    if l: "\<forall>s. set s \<subseteq> set caption \<longrightarrow> str_lower s = map lc s"
      and k: "\<forall>c \<in> set caption. wordc (lc c) = wordc c"
      and t: "tag \<in> set ?tags" for tag
  proof -
    from l have "str_lower caption = map lc caption" by blast
    with found [OF t] have "word_match wordc (map lc caption) tag" by simp
    from word_match_map [OF this k] obtain m where
      m: "map lc m = tag" "set m \<subseteq> set caption" "word_match wordc caption m"
      by blast
    from l m(1,2) have "str_lower m = tag" by simp
    with m(3) show ?thesis unfolding insensitive_word_match_def by blast
  qed
  have e: "extract_tags_from_caption_by str_lower wordc lit list_set [] = []"
    if "str_lower [] = []"
  proof -
    have "set (extract_tags_from_caption_by str_lower wordc lit list_set []) = {}"
      unfolding extract_tags_from_caption_by_def Let_def set_listing_set [OF assms] that
      by simp
    then show ?thesis by simp
  qed
  from d found i e show ?thesis by blast
qed

theorem extract_tags_match_lowered_caption_witness:
  "set_listing (remdups :: string list \<Rightarrow> string list)
   \<and> lower ''A Man is RUNNING, personally'' = map lower_char ''A Man is RUNNING, personally''
   \<and> lower [] = []
   \<and> extract_tags_from_caption_by lower is_word_char id remdups
        ''A Man is RUNNING, personally'' = [''man'', ''running'']
   \<and> insensitive_word_match lower is_word_char ''A Man is RUNNING, personally'' ''man''
   \<and> insensitive_word_match lower is_word_char ''A Man is RUNNING, personally'' ''running''
   \<and> extract_tags_from_caption_by lower is_word_char id remdups [] = []"
proof -
  let ?caption = "''A Man is RUNNING, personally''"
  have l: "\<forall>s. set s \<subseteq> set ?caption \<longrightarrow> lower s = map lower_char s"
    by (simp add: lower_def)
  have k: "\<forall>c \<in> set ?caption. is_word_char (lower_char c) = is_word_char c"
    by (simp only: is_word_char_lower ball_triv simp_thms)
  have n: "lower [] = []"
    by (simp add: lower_def)
  have r: "extract_tags_from_caption_by lower is_word_char id remdups ?caption =
      [''man'', ''running'']"
    by code_simp
  note t = extract_tags_match_lowered_caption
    [OF set_listing_remdups, of lower is_word_char id ?caption lower_char]
  from t l k have "\<forall>tag \<in> set (extract_tags_from_caption_by lower is_word_char id remdups
      ?caption). insensitive_word_match lower is_word_char ?caption tag"
    by blast
  then have m: "\<forall>tag \<in> set [''man'', ''running''].
      insensitive_word_match lower is_word_char ?caption tag"
    by (simp only: r)
  have m1: "insensitive_word_match lower is_word_char ?caption ''man''"
    by (rule bspec [OF m]) simp
  have m2: "insensitive_word_match lower is_word_char ?caption ''running''"
    by (rule bspec [OF m]) simp
  from extract_tags_match_lowered_caption [OF set_listing_remdups, of lower is_word_char id
      "[]" lower_char] n
  have e: "extract_tags_from_caption_by lower is_word_char id remdups [] = []"
    by blast
  have l': "lower ?caption = map lower_char ?caption"
    by (simp only: lower_def)
  from set_listing_remdups l' n r m1 m2 e show ?thesis by blast
qed

text \<open>
  The claim as stated fails on a caption that lowering changes in length. U+0130
  followed by \<open>man\<close> lowers to \<open>i\<close>, U+0307, \<open>man\<close>; the combining dot is no word
  character, so \<open>man\<close> is found, although in the caption itself \<open>man\<close> follows a letter
  and no piece of the caption is a word-boundary match that lowers to \<open>man\<close>.
\<close>

theorem dotted_capital_i_counterexample:
  "example_lower [304, 109, 97, 110] = [105, 775, 109, 97, 110]
   \<and> extract_tags_from_caption_by example_lower example_word of_char remdups
        [304, 109, 97, 110] = [109, 97, 110] # []
   \<and> \<not> insensitive_word_match example_lower example_word [304, 109, 97, 110]
        [109, 97, 110]"
  by code_simp

section \<open>The basketball example\<close>

lemma basketball_matches:
  "concat (map (\<lambda>(category, pattern).
      findall is_word_char (map (map id) pattern) None
        (lower ''a group of people playing basketball at night''))
      tag_patterns) = [''people'', ''playing'', ''basketball'', ''night'']"
  by code_simp

lemma basketball_context:
  "analyze_scene_context ''a group of people playing basketball at night'' =
     [(''setting'', ''unknown''), (''time_of_day'', ''night''), (''activity_level'', ''high''),
      (''social_context'', ''group''), (''mood'', ''neutral'')]"
  by code_simp

lemma related_topics_cong:
  "set tags = set tags' \<Longrightarrow>
   generate_related_topics list_set tags context = generate_related_topics list_set tags' context"
  unfolding generate_related_topics_def by (simp only:)

lemma basketball_pool:
  "generate_related_topics list_set [''people'', ''playing'', ''basketball'', ''night'']
     [(''setting'', ''unknown''), (''time_of_day'', ''night''), (''activity_level'', ''high''),
      (''social_context'', ''group''), (''mood'', ''neutral'')] =
   Inr (take 5 (list_set [''sports'', ''athletics'', ''competition'', ''team activities'',
     ''active lifestyle'', ''energy'', ''motivation'']))"
  by (simp add: generate_related_topics_def getitem_def)

text \<open>
  Claim C8, as amended. For the caption \<open>a group of people playing basketball at night\<close>
  the extracted tags are \<open>people\<close>, \<open>playing\<close>, \<open>basketball\<close> and \<open>night\<close>, the time of
  day is \<open>night\<close> and the social context is \<open>group\<close>. The related topics are five
  distinct topics out of seven candidates, among them \<open>sports\<close> and \<open>athletics\<close>; which
  five are returned is decided by the order in which the set is listed.
\<close>

theorem basketball_example:
  assumes "set_listing list_set"
  shows "set (extract_tags_from_caption list_set
            ''a group of people playing basketball at night'') =
          {''people'', ''playing'', ''basketball'', ''night''}
    \<and> map_of (analyze_scene_context ''a group of people playing basketball at night'')
          ''time_of_day'' = Some ''night''
    \<and> map_of (analyze_scene_context ''a group of people playing basketball at night'')
          ''social_context'' = Some ''group''
    \<and> (\<exists>topics.
          generate_related_topics list_set
            (extract_tags_from_caption list_set
               ''a group of people playing basketball at night'')
            (analyze_scene_context ''a group of people playing basketball at night'') =
          Inr topics
          \<and> length topics = 5 \<and> distinct topics
          \<and> set topics \<subseteq> set [''sports'', ''athletics'', ''competition'',
                ''team activities'', ''active lifestyle'', ''energy'', ''motivation''])"
proof (intro conjI)
  let ?caption = "''a group of people playing basketball at night''"
  let ?pool = "[''sports'', ''athletics'', ''competition'', ''team activities'',
     ''active lifestyle'', ''energy'', ''motivation'']"
  have tags: "extract_tags_from_caption list_set ?caption =
      list_set [''people'', ''playing'', ''basketball'', ''night'']"
    unfolding extract_tags_from_caption_def extract_tags_from_caption_by_def Let_def
      basketball_matches
    by (rule refl)
  then have st: "set (extract_tags_from_caption list_set ?caption) =
      set [''people'', ''playing'', ''basketball'', ''night'']"
    by (simp only: set_listing_set [OF assms])
  then show "set (extract_tags_from_caption list_set ?caption) =
      {''people'', ''playing'', ''basketball'', ''night''}"
    by simp
  show "map_of (analyze_scene_context ?caption) ''time_of_day'' = Some ''night''"
    unfolding basketball_context by simp
  show "map_of (analyze_scene_context ?caption) ''social_context'' = Some ''group''"
    unfolding basketball_context by simp
  have r: "generate_related_topics list_set (extract_tags_from_caption list_set ?caption)
      (analyze_scene_context ?caption) = Inr (take 5 (list_set ?pool))"
    unfolding basketball_context related_topics_cong [OF st] by (rule basketball_pool)
  have d: "distinct (list_set ?pool)"
    by (rule set_listing_distinct [OF assms])
  have "distinct ?pool" by simp
  then have "card (set ?pool) = length ?pool" by (rule distinct_card)
  then have "card (set (list_set ?pool)) = 7"
    by (simp only: set_listing_set [OF assms]) simp
  with d have "length (list_set ?pool) = 7"
    by (simp only: distinct_card)
  then have l: "length (take 5 (list_set ?pool)) = 5" by simp
  have s: "set (take 5 (list_set ?pool)) \<subseteq> set ?pool"
    using set_take_subset [of 5 "list_set ?pool"] by (simp only: set_listing_set [OF assms])
  from r l s distinct_take [OF d, of 5]
  show "\<exists>topics.
          generate_related_topics list_set (extract_tags_from_caption list_set ?caption)
            (analyze_scene_context ?caption) = Inr topics
          \<and> length topics = 5 \<and> distinct topics \<and> set topics \<subseteq> set ?pool"
    by blast
qed

theorem basketball_example_witness:
  "set_listing (remdups :: string list \<Rightarrow> string list)
   \<and> extract_tags_from_caption remdups ''a group of people playing basketball at night'' =
       [''people'', ''playing'', ''basketball'', ''night'']
   \<and> map_of (analyze_scene_context ''a group of people playing basketball at night'')
          ''time_of_day'' = Some ''night''
   \<and> map_of (analyze_scene_context ''a group of people playing basketball at night'')
          ''social_context'' = Some ''group''
   \<and> generate_related_topics remdups
        (extract_tags_from_caption remdups ''a group of people playing basketball at night'')
        (analyze_scene_context ''a group of people playing basketball at night'') =
       Inr [''sports'', ''athletics'', ''competition'', ''team activities'',
            ''active lifestyle'']"
proof (intro conjI)
  show "set_listing (remdups :: string list \<Rightarrow> string list)" by (rule set_listing_remdups)
  show "extract_tags_from_caption remdups ''a group of people playing basketball at night'' =
       [''people'', ''playing'', ''basketball'', ''night'']"
    by code_simp
  show "map_of (analyze_scene_context ''a group of people playing basketball at night'')
          ''time_of_day'' = Some ''night''"
    using basketball_example [OF set_listing_remdups] by (rule conjunct2 [THEN conjunct1])
  show "map_of (analyze_scene_context ''a group of people playing basketball at night'')
          ''social_context'' = Some ''group''"
    using basketball_example [OF set_listing_remdups]
    by (rule conjunct2 [THEN conjunct2, THEN conjunct1])
  show "generate_related_topics remdups
        (extract_tags_from_caption remdups ''a group of people playing basketball at night'')
        (analyze_scene_context ''a group of people playing basketball at night'') =
       Inr [''sports'', ''athletics'', ''competition'', ''team activities'',
            ''active lifestyle'']"
    by code_simp
qed

text \<open>
  The claim as stated fails: when the set of the seven candidates is listed the other
  way round, neither \<open>sports\<close> nor \<open>athletics\<close> is among the five topics returned.
\<close>

theorem basketball_topics_counterexample:
  "set_listing (reversed_listing :: string list \<Rightarrow> string list)
   \<and> generate_related_topics reversed_listing
        (extract_tags_from_caption reversed_listing
           ''a group of people playing basketball at night'')
        (analyze_scene_context ''a group of people playing basketball at night'') =
       Inr [''motivation'', ''energy'', ''active lifestyle'', ''team activities'',
            ''competition'']
   \<and> ''sports'' \<notin> set [''motivation'', ''energy'', ''active lifestyle'', ''team activities'',
            ''competition'']
   \<and> ''athletics'' \<notin> set [''motivation'', ''energy'', ''active lifestyle'',
            ''team activities'', ''competition'']"
proof (intro conjI)
  show "set_listing (reversed_listing :: string list \<Rightarrow> string list)"
    by (rule set_listing_reversed)
  show "generate_related_topics reversed_listing
        (extract_tags_from_caption reversed_listing
           ''a group of people playing basketball at night'')
        (analyze_scene_context ''a group of people playing basketball at night'') =
       Inr [''motivation'', ''energy'', ''active lifestyle'', ''team activities'',
            ''competition'']"
    by code_simp
  show "''sports'' \<notin> set [''motivation'', ''energy'', ''active lifestyle'', ''team activities'',
            ''competition'']"
    by simp
  show "''athletics'' \<notin> set [''motivation'', ''energy'', ''active lifestyle'',
            ''team activities'', ''competition'']"
    by simp
qed

end
